theory Spec2Isabelle
  imports Complex_Main
begin

section \<open>Python values\<close>

text \<open>
  The bot is Python. Its dictionaries (positions, orders, balances, JSON documents) hold
  dynamically typed values. Floats are modelled as reals: the properties proved below
  depend on the order of two floats and on which arithmetic expression is evaluated,
  never on a rounding.
  A \<open>datetime\<close> is the record of its fields; Python only ever builds valid ones.
\<close>

record datetime =
  dt_year :: nat
  dt_month :: nat
  dt_day :: nat
  dt_hour :: nat
  dt_minute :: nat
  dt_second :: nat
  dt_microsecond :: nat

datatype pyval =
    PNone
  | PInt int
  | PNum real
  | PStr string
  | PTime datetime
  | PDict "(string \<times> pyval) list"

text \<open>A dictionary with string keys, in insertion order.\<close>

type_synonym pydict = "(string \<times> pyval) list"

datatype error =
    ExchangeError
  | CcxtError
  | TypeError
  | KeyError
  | ValueError
  | AttributeError
  | DatabaseError
  | NotifierError
  | OrderExecutionError

text \<open>
  A method that mutates its object and may raise: the object as the method left it comes
  with either way of leaving.
\<close>

datatype 'a outcome = Returned 'a | Raised error 'a



text \<open>\<open>d.get(k)\<close> is \<open>map_of d k\<close>; \<open>d[k] = v\<close> keeps the place of an existing key.\<close>

fun dict_set :: "string \<Rightarrow> pyval \<Rightarrow> pydict \<Rightarrow> pydict" where
  "dict_set k v [] = [(k, v)]"
| "dict_set k v (p # ps) = (if fst p = k then (k, v) # ps else p # dict_set k v ps)"


text \<open>Truth value of an optional dictionary: \<open>None\<close> and \<open>{}\<close> are false.\<close>

fun truthy_dict :: "pydict option \<Rightarrow> bool" where
  "truthy_dict None = False"
| "truthy_dict (Some d) = (d \<noteq> [])"

fun truthy :: "pyval \<Rightarrow> bool" where
  "truthy PNone = False"
| "truthy (PInt i) = (i \<noteq> 0)"
| "truthy (PNum r) = (r \<noteq> 0)"
| "truthy (PStr s) = (s \<noteq> [])"
| "truthy (PTime t) = True"
| "truthy (PDict d) = (d \<noteq> [])"

text \<open>
  \<open>json.dumps\<close> raises TypeError on a datetime anywhere in the value. The JSON text of a
  serialisable dictionary is kept as the dictionary itself, so \<open>json.loads\<close> of that text
  gives it back.
\<close>

fun json_serializable :: "pyval \<Rightarrow> bool" where
  "json_serializable (PTime t) = False"
| "json_serializable (PDict d) = list_all (\<lambda>kv. json_serializable (snd kv)) d"
| "json_serializable v = True"

definition json_dumps :: "pydict \<Rightarrow> error + pydict" where
  "json_dumps d = (if json_serializable (PDict d) then Inr d else Inl TypeError)"

definition json_loads :: "pydict \<Rightarrow> pydict" where
  "json_loads doc = doc"

section \<open>datetime.isoformat and datetime.fromisoformat\<close>

text \<open>
  \<open>isoformat\<close> of a naive datetime writes \<open>YYYY-MM-DDTHH:MM:SS\<close>, followed by
  \<open>.ffffff\<close> when the microsecond is not zero. \<open>fromisoformat\<close> is modelled on that
  layout (the library accepts more layouts; none of them is written by this program) and
  raises ValueError on anything else, also on a field out of range.
\<close>

definition digit_char :: "nat \<Rightarrow> char" where
  "digit_char n = char_of (48 + n mod 10)"

definition digit_val :: "char \<Rightarrow> nat option" where
  "digit_val c = (let k = (of_char c :: nat) in if 48 \<le> k \<and> k \<le> 57 then Some (k - 48) else None)"

fun digits :: "nat \<Rightarrow> nat \<Rightarrow> string" where
  "digits 0 n = []"
| "digits (Suc w) n = digits w (n div 10) @ [digit_char n]"

fun nat_of_digits :: "nat \<Rightarrow> string \<Rightarrow> nat option" where
  "nat_of_digits acc [] = Some acc"
| "nat_of_digits acc (c # cs) =
     (case digit_val c of None \<Rightarrow> None | Some k \<Rightarrow> nat_of_digits (10 * acc + k) cs)"

definition is_leap :: "nat \<Rightarrow> bool" where
  "is_leap y = (y mod 4 = 0 \<and> (y mod 100 \<noteq> 0 \<or> y mod 400 = 0))"

definition days_in_month :: "nat \<Rightarrow> nat \<Rightarrow> nat" where
  "days_in_month y m =
     (if m = 2 then (if is_leap y then 29 else 28)
      else if m = 4 \<or> m = 6 \<or> m = 9 \<or> m = 11 then 30 else 31)"

definition valid_datetime :: "datetime \<Rightarrow> bool" where
  "valid_datetime d =
     (1 \<le> dt_year d \<and> dt_year d \<le> 9999 \<and> 1 \<le> dt_month d \<and> dt_month d \<le> 12 \<and>
      1 \<le> dt_day d \<and> dt_day d \<le> days_in_month (dt_year d) (dt_month d) \<and>
      dt_hour d < 24 \<and> dt_minute d < 60 \<and> dt_second d < 60 \<and> dt_microsecond d < 1000000)"

definition isoformat :: "datetime \<Rightarrow> string" where
  "isoformat d =
     digits 4 (dt_year d) @ ''-'' @ digits 2 (dt_month d) @ ''-'' @ digits 2 (dt_day d) @ ''T'' @
     digits 2 (dt_hour d) @ '':'' @ digits 2 (dt_minute d) @ '':'' @ digits 2 (dt_second d) @
     (if dt_microsecond d = 0 then [] else ''.'' @ digits 6 (dt_microsecond d))"

definition slice :: "nat \<Rightarrow> nat \<Rightarrow> string \<Rightarrow> string" where
  "slice i j s = take (j - i) (drop i s)"

definition fromisoformat :: "string \<Rightarrow> error + datetime" where
  "fromisoformat s =
     (if (length s = 19 \<or> (length s = 26 \<and> slice 19 20 s = ''.'')) \<and>
         slice 4 5 s = ''-'' \<and> slice 7 8 s = ''-'' \<and> slice 10 11 s = ''T'' \<and>
         slice 13 14 s = '':'' \<and> slice 16 17 s = '':''
      then
        (case (nat_of_digits 0 (slice 0 4 s), nat_of_digits 0 (slice 5 7 s),
               nat_of_digits 0 (slice 8 10 s), nat_of_digits 0 (slice 11 13 s),
               nat_of_digits 0 (slice 14 16 s), nat_of_digits 0 (slice 17 19 s),
               nat_of_digits 0 (slice 20 26 s)) of
           (Some y, Some mo, Some da, Some h, Some mi, Some se, Some us) \<Rightarrow>
             (let d = \<lparr>dt_year = y, dt_month = mo, dt_day = da, dt_hour = h, dt_minute = mi,
                       dt_second = se, dt_microsecond = us\<rparr>
              in if valid_datetime d then Inr d else Inl ValueError)
         | _ \<Rightarrow> Inl ValueError)
      else Inl ValueError)"

section \<open>core/state\_manager.py: BotState and TradingConfig\<close>

datatype BotState =
    IDLE
  | MONITORING
  | CLOSING_POSITION
  | CONVERTING
  | WITHDRAWING
  | RESETTING
  | ERROR

text \<open>The enum's \<open>.value\<close>, and the lookup \<open>BotState(value)\<close>, which raises ValueError.\<close>

fun state_value :: "BotState \<Rightarrow> string" where
  "state_value IDLE = ''idle''"
| "state_value MONITORING = ''monitoring''"
| "state_value CLOSING_POSITION = ''closing_position''"
| "state_value CONVERTING = ''converting''"
| "state_value WITHDRAWING = ''withdrawing''"
| "state_value RESETTING = ''resetting''"
| "state_value ERROR = ''error''"

definition BotState_of_value :: "string \<Rightarrow> error + BotState" where
  "BotState_of_value v =
     (case find (\<lambda>s. state_value s = v)
             [IDLE, MONITORING, CLOSING_POSITION, CONVERTING, WITHDRAWING, RESETTING, ERROR] of
        None \<Rightarrow> Inl ValueError
      | Some s \<Rightarrow> Inr s)"

text \<open>
  TradingConfig with the field types its annotations declare. \<open>leverage\<close> is a Python int,
  the optional fields are \<open>None\<close> or a value.
\<close>

record TradingConfig =
  symbol :: string
  side :: string
  quantity :: real
  leverage :: int
  margin_mode :: string
  profit_threshold :: real
  entry_price :: "real option"
  position_opened_at :: "datetime option"

definition to_dict :: "TradingConfig \<Rightarrow> pydict" where
  "to_dict c =
     [(''symbol'', PStr (symbol c)),
      (''side'', PStr (side c)),
      (''quantity'', PNum (quantity c)),
      (''leverage'', PInt (leverage c)),
      (''margin_mode'', PStr (margin_mode c)),
      (''profit_threshold'', PNum (profit_threshold c)),
      (''entry_price'', (case entry_price c of None \<Rightarrow> PNone | Some p \<Rightarrow> PNum p)),
      (''position_opened_at'',
         (case position_opened_at c of None \<Rightarrow> PNone | Some t \<Rightarrow> PStr (isoformat t)))]"

text \<open>
  \<open>kwargs.get(key, default)\<close> read at the declared type of the field. Python stores whatever
  value the dictionary holds; a value of another type gives an object that is not a
  TradingConfig of the declared types, which the typed model reports as TypeError.
\<close>

definition get_str :: "pydict \<Rightarrow> string \<Rightarrow> string \<Rightarrow> error + string" where
  "get_str kw k dflt =
     (case map_of kw k of None \<Rightarrow> Inr dflt | Some (PStr s) \<Rightarrow> Inr s | Some _ \<Rightarrow> Inl TypeError)"

definition get_float :: "pydict \<Rightarrow> string \<Rightarrow> real \<Rightarrow> error + real" where
  "get_float kw k dflt =
     (case map_of kw k of None \<Rightarrow> Inr dflt | Some (PNum r) \<Rightarrow> Inr r
      | Some (PInt i) \<Rightarrow> Inr (of_int i) | Some _ \<Rightarrow> Inl TypeError)"

definition get_int :: "pydict \<Rightarrow> string \<Rightarrow> int \<Rightarrow> error + int" where
  "get_int kw k dflt =
     (case map_of kw k of None \<Rightarrow> Inr dflt | Some (PInt i) \<Rightarrow> Inr i | Some _ \<Rightarrow> Inl TypeError)"

definition get_opt_float :: "pydict \<Rightarrow> string \<Rightarrow> error + real option" where
  "get_opt_float kw k =
     (case map_of kw k of None \<Rightarrow> Inr None | Some PNone \<Rightarrow> Inr None
      | Some (PNum r) \<Rightarrow> Inr (Some r) | Some (PInt i) \<Rightarrow> Inr (Some (of_int i))
      | Some _ \<Rightarrow> Inl TypeError)"

definition get_opt_time :: "pydict \<Rightarrow> string \<Rightarrow> error + datetime option" where
  "get_opt_time kw k =
     (case map_of kw k of None \<Rightarrow> Inr None | Some PNone \<Rightarrow> Inr None
      | Some (PTime t) \<Rightarrow> Inr (Some t) | Some _ \<Rightarrow> Inl TypeError)"

text \<open>\<open>TradingConfig.__init__(**kwargs)\<close>, with the defaults of the source.\<close>

definition TradingConfig_init :: "pydict \<Rightarrow> error + TradingConfig" where
  "TradingConfig_init kw =
     (case (get_str kw ''symbol'' ''BTC/USDT'', get_str kw ''side'' ''long'',
            get_float kw ''quantity'' 0.01, get_int kw ''leverage'' 10,
            get_str kw ''margin_mode'' ''isolated'', get_float kw ''profit_threshold'' 50.0,
            get_opt_float kw ''entry_price'', get_opt_time kw ''position_opened_at'') of
        (Inr sy, Inr si, Inr q, Inr l, Inr mm, Inr pt, Inr ep, Inr po) \<Rightarrow>
          Inr \<lparr>symbol = sy, side = si, quantity = q, leverage = l, margin_mode = mm,
               profit_threshold = pt, entry_price = ep, position_opened_at = po\<rparr>
      | _ \<Rightarrow> Inl TypeError)"

definition from_dict :: "pydict \<Rightarrow> error + TradingConfig" where
  "from_dict data =
     (case map_of data ''position_opened_at'' of
        None \<Rightarrow> TradingConfig_init data
      | Some v \<Rightarrow>
          if truthy v then
            (case v of
               PStr s \<Rightarrow>
                 (case fromisoformat s of
                    Inl e \<Rightarrow> Inl e
                  | Inr t \<Rightarrow> TradingConfig_init (dict_set ''position_opened_at'' (PTime t) data))
             | _ \<Rightarrow> Inl TypeError)
          else TradingConfig_init data)"

text \<open>\<open>TradingConfig.reset\<close>: the dynamic fields are cleared, the others stay.\<close>

definition reset :: "TradingConfig \<Rightarrow> TradingConfig" where
  "reset c = c\<lparr>entry_price := None, position_opened_at := None\<rparr>"


section \<open>database/db\_manager.py: the store\<close>

text \<open>
  The SQL tables are modelled by the statements the store has committed, oldest first.
  Every statement may fail (sqlite raises, the method logs and raises again): \<open>faults\<close>
  says, for each statement still to come, whether it fails; past its end none does.
  A row of \<open>bot_state\<close> holds the state's value and the JSON texts of two dictionaries (or
  NULL); its \<open>last_updated\<close> column is written and never read, and is left out.
\<close>

record bot_state_row =
  row_current_state :: string
  row_trading_config :: "pydict option"
  row_active_position :: "pydict option"

datatype db_call =
    SaveBotState bot_state_row
  | UpdateTradeStatus pydict
  | SaveErrorLog pydict

record DatabaseManager =
  faults :: "bool list"
  statements :: "db_call list"

definition next_statement_fails :: "DatabaseManager \<Rightarrow> bool" where
  "next_statement_fails d = (case faults d of [] \<Rightarrow> False | f # fs \<Rightarrow> f)"

definition db_execute :: "db_call \<Rightarrow> DatabaseManager \<Rightarrow> DatabaseManager outcome" where
  "db_execute c d =
     (if next_statement_fails d then Raised DatabaseError (d\<lparr>faults := tl (faults d)\<rparr>)
      else Returned (d\<lparr>faults := tl (faults d), statements := statements d @ [c]\<rparr>))"

text \<open>
  \<open>save_bot_state\<close> updates the latest row or inserts the first one: afterwards the latest
  row is the one saved. \<open>get_bot_state\<close> reads the latest row; when the query fails it logs
  and returns \<open>None\<close>.
\<close>

definition save_bot_state :: "bot_state_row \<Rightarrow> DatabaseManager \<Rightarrow> DatabaseManager outcome" where
  "save_bot_state r d = db_execute (SaveBotState r) d"

fun latest_bot_state :: "db_call list \<Rightarrow> bot_state_row option" where
  "latest_bot_state [] = None"
| "latest_bot_state (c # cs) =
     (case latest_bot_state cs of
        Some r \<Rightarrow> Some r
      | None \<Rightarrow> (case c of SaveBotState r \<Rightarrow> Some r | _ \<Rightarrow> None))"

definition get_bot_state :: "DatabaseManager \<Rightarrow> bot_state_row option \<times> DatabaseManager" where
  "get_bot_state d =
     (if next_statement_fails d then None else latest_bot_state (statements d),
      d\<lparr>faults := tl (faults d)\<rparr>)"



section \<open>core/state\_manager.py: StateManager\<close>

text \<open>
  The object's attributes, and \<open>state_log\<close>: the lines
  \<open>State changed: old -> new\<close> that \<open>set_state\<close> writes to the log, oldest first.
  An entry of \<open>trade_history\<close> is whatever \<open>last_closed_position\<close> held when it was
  appended, \<open>None\<close> included.
\<close>

record StateManager =
  db :: DatabaseManager
  current_state :: BotState
  trading_config :: "TradingConfig option"
  active_position :: "pydict option"
  last_closed_position :: "pydict option"
  trade_history :: "pydict option list"
  state_log :: "(BotState \<times> BotState) list"

text \<open>
  \<open>_save_state\<close>: builds the row and saves it; any exception (a dictionary that JSON cannot
  write, a failing store) is logged and swallowed. An empty \<open>active_position\<close> is false and
  is saved as NULL.
\<close>

definition dumps_if_truthy :: "pydict option \<Rightarrow> error + pydict option" where
  "dumps_if_truthy x =
     (case x of
        None \<Rightarrow> Inr None
      | Some d \<Rightarrow>
          if d = [] then Inr None
          else (case json_dumps d of Inl e \<Rightarrow> Inl e | Inr t \<Rightarrow> Inr (Some t)))"

definition save_state :: "StateManager \<Rightarrow> StateManager" where
  "save_state sm =
     (case (case trading_config sm of
              None \<Rightarrow> Inr None
            | Some c \<Rightarrow> (case json_dumps (to_dict c) of Inl e \<Rightarrow> Inl e | Inr t \<Rightarrow> Inr (Some t))) of
        Inl e \<Rightarrow> sm
      | Inr cfg \<Rightarrow>
          (case dumps_if_truthy (active_position sm) of
             Inl e \<Rightarrow> sm
           | Inr pos \<Rightarrow>
               (case save_bot_state
                       \<lparr>row_current_state = state_value (current_state sm),
                        row_trading_config = cfg, row_active_position = pos\<rparr> (db sm) of
                  Returned d \<Rightarrow> sm\<lparr>db := d\<rparr>
                | Raised e d \<Rightarrow> sm\<lparr>db := d\<rparr>)))"

text \<open>
  \<open>_load_state\<close>: each attribute is assigned as soon as it is read, so an exception (caught
  and logged) leaves the earlier assignments in place.
\<close>

definition load_state :: "StateManager \<Rightarrow> StateManager" where
  "load_state sm =
     (let (row, d) = get_bot_state (db sm); sm0 = sm\<lparr>db := d\<rparr> in
      case row of
        None \<Rightarrow> sm0
      | Some r \<Rightarrow>
          (case BotState_of_value (row_current_state r) of
             Inl e \<Rightarrow> sm0
           | Inr st \<Rightarrow>
               (let sm1 = sm0\<lparr>current_state := st\<rparr> in
                case (case row_trading_config r of
                        None \<Rightarrow> Inr sm1
                      | Some t \<Rightarrow>
                          (case from_dict (json_loads t) of
                             Inl e \<Rightarrow> Inl e
                           | Inr c \<Rightarrow> Inr (sm1\<lparr>trading_config := Some c\<rparr>))) of
                  Inl e \<Rightarrow> sm1
                | Inr sm2 \<Rightarrow>
                    (case row_active_position r of
                       None \<Rightarrow> sm2
                     | Some t \<Rightarrow> sm2\<lparr>active_position := Some (json_loads t)\<rparr>))))"

definition StateManager_init :: "DatabaseManager \<Rightarrow> StateManager" where
  "StateManager_init d =
     load_state \<lparr>db = d, current_state = IDLE, trading_config = None, active_position = None,
                 last_closed_position = None, trade_history = [], state_log = []\<rparr>"

definition initialize_trading_config :: "TradingConfig \<Rightarrow> StateManager \<Rightarrow> StateManager" where
  "initialize_trading_config config sm = save_state (sm\<lparr>trading_config := Some config\<rparr>)"

definition set_state :: "BotState \<Rightarrow> StateManager \<Rightarrow> StateManager" where
  "set_state new_state sm =
     save_state (sm\<lparr>current_state := new_state,
                     state_log := state_log sm @ [(current_state sm, new_state)]\<rparr>)"

definition is_monitoring :: "StateManager \<Rightarrow> bool" where
  "is_monitoring sm = (current_state sm = MONITORING)"

definition can_open_position :: "StateManager \<Rightarrow> bool" where
  "can_open_position sm = (current_state sm \<in> set [IDLE, RESETTING])"


text \<open>
  \<open>d[key] = value\<close> under \<open>if self.last_closed_position:\<close>, which \<open>None\<close> and an empty
  dictionary both fail.
\<close>

definition attach :: "string \<Rightarrow> pydict \<Rightarrow> pydict option \<Rightarrow> pydict option" where
  "attach key data pending =
     (case pending of
        None \<Rightarrow> None
      | Some d \<Rightarrow> if d = [] then Some d else Some (dict_set key (PDict data) d))"

definition conversion_completed :: "pydict \<Rightarrow> StateManager \<Rightarrow> StateManager" where
  "conversion_completed conversion_data sm =
     set_state WITHDRAWING
       (sm\<lparr>last_closed_position := attach ''conversion'' conversion_data (last_closed_position sm)\<rparr>)"

definition auto_reset :: "StateManager \<Rightarrow> StateManager" where
  "auto_reset sm =
     (let sm1 = set_state RESETTING sm;
          sm2 = sm1\<lparr>trading_config := map_option reset (trading_config sm1)\<rparr>;
          sm3 = sm2\<lparr>last_closed_position := None\<rparr>
      in set_state IDLE sm3)"



section \<open>core/exchange\_client.py: ExchangeClient\<close>

text \<open>
  The ccxt exchange object is outside the program: what its methods answer at a given
  moment is a parameter, \<open>Inl\<close> when the method raises. \<open>float_of_str\<close> is Python's
  \<open>float\<close> on a string (\<open>None\<close>: ValueError), a parameter as well.
\<close>

record ccxt =
  fetch_balance :: "error + pydict"
  fetch_positions :: "error + pydict list"
  fetch_ticker :: "pyval \<Rightarrow> error + pydict"
  sapi_post_convert_getquote :: "pydict \<Rightarrow> error + pydict"
  sapi_post_convert_acceptquote :: "pydict \<Rightarrow> error + pydict"

fun py_float :: "(string \<Rightarrow> real option) \<Rightarrow> pyval \<Rightarrow> error + real" where
  "py_float float_of_str (PNum r) = Inr r"
| "py_float float_of_str (PInt i) = Inr (of_int i)"
| "py_float float_of_str (PStr s) =
     (case float_of_str s of None \<Rightarrow> Inl ValueError | Some r \<Rightarrow> Inr r)"
| "py_float float_of_str v = Inl TypeError"

text \<open>A value used as a number in arithmetic with a float: an int or a float.\<close>

fun py_number :: "pyval \<Rightarrow> error + real" where
  "py_number (PNum r) = Inr r"
| "py_number (PInt i) = Inr (of_int i)"
| "py_number v = Inl TypeError"

text \<open>\<open>d[k]\<close> raises KeyError; \<open>d.get(k, default)\<close> does not.\<close>

definition subscript :: "pydict \<Rightarrow> string \<Rightarrow> error + pyval" where
  "subscript d k = (case map_of d k of None \<Rightarrow> Inl KeyError | Some v \<Rightarrow> Inr v)"

definition get_default :: "pydict \<Rightarrow> string \<Rightarrow> pyval \<Rightarrow> pyval" where
  "get_default d k dflt = (case map_of d k of None \<Rightarrow> dflt | Some v \<Rightarrow> v)"

definition get_account_balance :: "ccxt \<Rightarrow> error + pydict" where
  "get_account_balance ex =
     (case fetch_balance ex of Inl e \<Rightarrow> Inl ExchangeError | Inr balance \<Rightarrow> Inr balance)"

text \<open>The list comprehension of \<open>get_open_positions\<close>; \<open>float\<close> may raise in it.\<close>

fun nonzero_size :: "(string \<Rightarrow> real option) \<Rightarrow> pydict list \<Rightarrow> error + pydict list" where
  "nonzero_size float_of_str [] = Inr []"
| "nonzero_size float_of_str (pos # ps) =
     (case py_float float_of_str (get_default pos ''contracts'' (PInt 0)) of
        Inl e \<Rightarrow> Inl e
      | Inr c \<Rightarrow>
          (case nonzero_size float_of_str ps of
             Inl e \<Rightarrow> Inl e
           | Inr rest \<Rightarrow> Inr (if c > 0 then pos # rest else rest)))"

definition get_open_positions :: "(string \<Rightarrow> real option) \<Rightarrow> ccxt \<Rightarrow> error + pydict list" where
  "get_open_positions float_of_str ex =
     (case fetch_positions ex of
        Inl e \<Rightarrow> Inl ExchangeError
      | Inr positions \<Rightarrow>
          (case nonzero_size float_of_str positions of
             Inl e \<Rightarrow> Inl ExchangeError
           | Inr open_positions \<Rightarrow> Inr open_positions))"

fun first_with_symbol :: "pyval \<Rightarrow> pydict list \<Rightarrow> error + pydict option" where
  "first_with_symbol smb [] = Inr None"
| "first_with_symbol smb (pos # ps) =
     (case subscript pos ''symbol'' of
        Inl e \<Rightarrow> Inl e
      | Inr v \<Rightarrow> if v = smb then Inr (Some pos) else first_with_symbol smb ps)"

text \<open>\<open>get_position_by_symbol\<close> catches every exception and returns \<open>None\<close> then.\<close>

definition get_position_by_symbol ::
  "(string \<Rightarrow> real option) \<Rightarrow> ccxt \<Rightarrow> pyval \<Rightarrow> pydict option" where
  "get_position_by_symbol float_of_str ex smb =
     (case get_open_positions float_of_str ex of
        Inl e \<Rightarrow> None
      | Inr positions \<Rightarrow>
          (case first_with_symbol smb positions of Inl e \<Rightarrow> None | Inr r \<Rightarrow> r))"

text \<open>
  The body of the \<open>try\<close> of \<open>calculate_position_pnl\<close>, and the method: any exception is
  logged and the result is then \<open>0.0\<close>. Every side other than \<open>'long'\<close> takes the short
  branch.
\<close>

definition pnl_try :: "(string \<Rightarrow> real option) \<Rightarrow> ccxt \<Rightarrow> pydict \<Rightarrow> error + real" where
  "pnl_try float_of_str ex position =
     (case subscript position ''symbol'' of Inl e \<Rightarrow> Inl e | Inr smb \<Rightarrow>
     (case fetch_ticker ex smb of Inl e \<Rightarrow> Inl e | Inr ticker \<Rightarrow>
     (case subscript ticker ''last'' of Inl e \<Rightarrow> Inl e | Inr current_price \<Rightarrow>
     (case subscript position ''entryPrice'' of Inl e \<Rightarrow> Inl e | Inr ep \<Rightarrow>
     (case py_float float_of_str ep of Inl e \<Rightarrow> Inl e | Inr entry \<Rightarrow>
     (case subscript position ''contracts'' of Inl e \<Rightarrow> Inl e | Inr cv \<Rightarrow>
     (case py_float float_of_str cv of Inl e \<Rightarrow> Inl e | Inr contracts \<Rightarrow>
     (case subscript position ''side'' of Inl e \<Rightarrow> Inl e | Inr sd \<Rightarrow>
     (case py_number current_price of Inl e \<Rightarrow> Inl e | Inr price \<Rightarrow>
        if sd = PStr ''long'' then Inr ((price - entry) * contracts)
        else Inr ((entry - price) * contracts))))))))))"

definition calculate_position_pnl ::
  "(string \<Rightarrow> real option) \<Rightarrow> ccxt \<Rightarrow> pydict \<Rightarrow> real" where
  "calculate_position_pnl float_of_str ex position =
     (case pnl_try float_of_str ex position of Inl e \<Rightarrow> 0 | Inr pnl \<Rightarrow> pnl)"

text \<open>
  \<open>convert_crypto\<close>: quote, then accept. Its \<open>except\<close> branch logs; the \<open>raise\<close> of
  ExchangeError in it is commented out, so the method falls off its end and returns
  \<open>None\<close>, where \<open>get_account_balance\<close> above and the other methods of the client log
  and raise ExchangeError.
\<close>

definition convert_crypto :: "ccxt \<Rightarrow> string \<Rightarrow> string \<Rightarrow> real \<Rightarrow> error + pydict option" where
  "convert_crypto ex from_asset to_asset amount =
     (case sapi_post_convert_getquote ex
             [(''fromAsset'', PStr from_asset), (''toAsset'', PStr to_asset),
              (''fromAmount'', PNum amount)] of
        Inl e \<Rightarrow> Inr None
      | Inr quote \<Rightarrow>
          (case subscript quote ''quoteId'' of
             Inl e \<Rightarrow> Inr None
           | Inr quote_id \<Rightarrow>
               (case sapi_post_convert_acceptquote ex [(''quoteId'', quote_id)] of
                  Inl e \<Rightarrow> Inr None
                | Inr result \<Rightarrow> Inr (Some result))))"

section \<open>core/position\_monitor.py: PositionMonitor\<close>

text \<open>
  The monitor's attributes. \<open>threshold\<close> is \<open>self.profit_threshold\<close> (the name is taken by
  TradingConfig); \<open>has_callback\<close> says whether \<open>on_profit_reached\<close> is set.
\<close>

record PositionMonitor =
  monitoring :: bool
  threshold :: real
  monitored_symbol :: "string option"
  has_callback :: bool

definition PositionMonitor_init :: PositionMonitor where
  "PositionMonitor_init =
     \<lparr>monitoring = False, threshold = 0, monitored_symbol = None, has_callback = False\<rparr>"

text \<open>
  \<open>start_monitoring\<close> does nothing while a session runs; otherwise it sets the attributes
  and starts a worker (another run of the loop below). \<open>stop_monitoring\<close> clears the flag.
\<close>

definition start_monitoring :: "string \<Rightarrow> real \<Rightarrow> PositionMonitor \<Rightarrow> PositionMonitor" where
  "start_monitoring smb profit m =
     (if monitoring m then m
      else m\<lparr>monitored_symbol := Some smb, threshold := profit, has_callback := True,
             monitoring := True\<rparr>)"

definition stop_monitoring :: "PositionMonitor \<Rightarrow> PositionMonitor" where
  "stop_monitoring m = m\<lparr>monitoring := False\<rparr>"

text \<open>
  What the world does during one turn of the worker's loop: the exchange's answers, what
  the callback does if it is invoked in this turn (whether it starts monitoring again, as
  the bot's callback does for the next cycle, and whether it raises), and whether another
  thread calls \<open>stop_monitoring\<close> while the worker sleeps.
\<close>

record poll =
  exchange :: ccxt
  callback_restarts :: "(string \<times> real) option"
  callback_raises :: bool
  stop_requested :: bool

text \<open>A call of the callback: its arguments, and the monitoring flag as the call finds it.\<close>

record signal =
  sig_position :: pydict
  sig_pnl :: real
  sig_monitoring :: bool

definition after_sleep :: "poll \<Rightarrow> PositionMonitor \<Rightarrow> PositionMonitor" where
  "after_sleep p m = (if stop_requested p then stop_monitoring m else m)"

definition after_callback :: "poll \<Rightarrow> PositionMonitor \<Rightarrow> PositionMonitor" where
  "after_callback p m =
     (case callback_restarts p of
        None \<Rightarrow> m
      | Some (smb, profit) \<Rightarrow> start_monitoring smb profit m)"

text \<open>
  One turn of the body of \<open>_monitor_loop\<close>, entered with the flag set: the monitor and the
  calls of the callback afterwards, and whether the worker goes back to the \<open>while\<close> test
  (\<open>True\<close>: after \<open>continue\<close>, after the sleep at the end of the body or in the \<open>except\<close>
  branch) or leaves the loop by \<open>break\<close> (\<open>False\<close>).
\<close>

definition monitor_turn ::
  "(string \<Rightarrow> real option) \<Rightarrow> poll \<Rightarrow> PositionMonitor \<Rightarrow> signal list \<Rightarrow>
   bool \<times> PositionMonitor \<times> signal list" where
  "monitor_turn float_of_str p m sigs =
     (case get_position_by_symbol float_of_str (exchange p)
             (case_option PNone PStr (monitored_symbol m)) of
        None \<Rightarrow> (True, after_sleep p m, sigs)
      | Some position \<Rightarrow>
          if position = [] then (True, after_sleep p m, sigs)
          else
            (let current_pnl = calculate_position_pnl float_of_str (exchange p) position in
             if current_pnl \<ge> threshold m then
               (let m1 = m\<lparr>monitoring := False\<rparr> in
                if has_callback m1 then
                  (let sigs1 = sigs @ [\<lparr>sig_position = position, sig_pnl = current_pnl,
                                         sig_monitoring = monitoring m1\<rparr>];
                       m2 = after_callback p m1
                   in if callback_raises p then (True, after_sleep p m2, sigs1)
                      else (False, m2, sigs1))
                else (False, m1, sigs))
             else (True, after_sleep p m, sigs)))"

text \<open>
  \<open>_monitor_loop\<close>, one list element per turn, with the calls of the callback it has made.
  The loop may run forever; a finite list of turns observes a prefix of its run.
\<close>

fun monitor_loop ::
  "(string \<Rightarrow> real option) \<Rightarrow> poll list \<Rightarrow> PositionMonitor \<Rightarrow> signal list \<Rightarrow>
   PositionMonitor \<times> signal list" where
  "monitor_loop float_of_str [] m sigs = (m, sigs)"
| "monitor_loop float_of_str (p # ps) m sigs =
     (if \<not> monitoring m then (m, sigs)
      else
        (case monitor_turn float_of_str p m sigs of
           (again, m', sigs') \<Rightarrow>
             if again then monitor_loop float_of_str ps m' sigs' else (m', sigs')))"

text \<open>
  \<open>check_liquidation\<close>: any exception is logged and the answer is then \<open>False\<close>.
  \<open>total_equity\<close> is \<open>float(balance.get('total', {}).get('USDT', 0))\<close>.
\<close>

definition total_equity :: "(string \<Rightarrow> real option) \<Rightarrow> pydict \<Rightarrow> error + real" where
  "total_equity float_of_str balance =
     (case get_default balance ''total'' (PDict []) of
        PDict totals \<Rightarrow> py_float float_of_str (get_default totals ''USDT'' (PInt 0))
      | _ \<Rightarrow> Inl AttributeError)"

definition check_liquidation :: "(string \<Rightarrow> real option) \<Rightarrow> ccxt \<Rightarrow> bool" where
  "check_liquidation float_of_str ex =
     (case get_account_balance ex of
        Inl e \<Rightarrow> False
      | Inr balance \<Rightarrow>
          (case get_open_positions float_of_str ex of
             Inl e \<Rightarrow> False
           | Inr positions \<Rightarrow>
               (case total_equity float_of_str balance of
                  Inl e \<Rightarrow> False
                | Inr equity \<Rightarrow> equity < 1.0 \<and> length positions = 0)))"

section \<open>gui/main\_window.py: the pipeline after a signal\<close>

text \<open>
  What the collaborators of \<open>TradingBot._on_profit_reached\<close> do in one run:
  \<open>close_order\<close> is the result of \<open>executor.execute_profit_close\<close> (an order, \<open>None\<close>, or
  an exception); \<open>conversion_result\<close> and \<open>withdrawal_result\<close> are those of
  \<open>converter.auto_convert_after_close\<close> and \<open>withdrawer.auto_withdraw_after_conversion\<close>,
  which catch every exception of their own and return \<open>None\<close> when the step is disabled,
  skipped or failed; the notifier may raise; \<open>closed_time\<close> and \<open>error_time\<close> are readings
  of the clock.
\<close>

record pipeline_env =
  close_order :: "error + pydict option"
  closed_time :: datetime
  closed_alert_raises :: bool
  conversion_result :: "pydict option"
  withdrawal_result :: "pydict option"
  error_message :: string
  error_time :: datetime
  error_alert_raises :: bool

text \<open>
  \<open>_execute_conversion\<close> and \<open>_execute_withdrawal\<close>: the manager is told only \<open>if result:\<close>.
  The alert sent afterwards may raise; the \<open>except\<close> branch around both logs it, and the
  manager is as the completed call left it.
\<close>

definition execute_conversion :: "pipeline_env \<Rightarrow> StateManager \<Rightarrow> StateManager" where
  "execute_conversion env sm =
     (case conversion_result env of
        None \<Rightarrow> sm
      | Some result \<Rightarrow> if result = [] then sm else conversion_completed result sm)"





text \<open>An empty store on which no statement fails.\<close>

definition empty_db :: DatabaseManager where
  "empty_db = \<lparr>faults = [], statements = []\<rparr>"

text \<open>Data for the closed examples below.\<close>

definition btc_position :: pydict where
  "btc_position =
     [(''symbol'', PStr ''BTC/USDT''), (''side'', PStr ''long''),
      (''contracts'', PNum 0.01), (''entryPrice'', PStr ''50000'')]"


definition t0 :: datetime where
  "t0 = \<lparr>dt_year = 2025, dt_month = 3, dt_day = 14, dt_hour = 9, dt_minute = 26,
          dt_second = 53, dt_microsecond = 589793\<rparr>"

definition config_1 :: TradingConfig where
  "config_1 =
     \<lparr>symbol = ''BTC/USDT'', side = ''long'', quantity = 0.01, leverage = 10,
      margin_mode = ''isolated'', profit_threshold = 50, entry_price = Some 50000,
      position_opened_at = Some t0\<rparr>"

text \<open>A manager that is monitoring \<open>btc_position\<close>, over an empty store.\<close>

definition monitoring_manager :: StateManager where
  "monitoring_manager =
     \<lparr>db = empty_db, current_state = MONITORING, trading_config = Some config_1,
      active_position = Some btc_position, last_closed_position = None, trade_history = [],
      state_log = [(IDLE, MONITORING)]\<rparr>"

text \<open>Python's \<open>float\<close> on the strings the examples use.\<close>

definition float_of_str_1 :: "string \<Rightarrow> real option" where
  "float_of_str_1 s = (if s = ''50000'' then Some 50000 else if s = ''0.01'' then Some 0.01 else None)"

text \<open>An exchange on which every call raises, and one with a balance, a position and a price.\<close>

definition failing_ccxt :: ccxt where
  "failing_ccxt =
     \<lparr>fetch_balance = Inl CcxtError, fetch_positions = Inl CcxtError,
      fetch_ticker = (\<lambda>s. Inl CcxtError),
      sapi_post_convert_getquote = (\<lambda>r. Inl CcxtError),
      sapi_post_convert_acceptquote = (\<lambda>r. Inl CcxtError)\<rparr>"

definition ccxt_at :: "real \<Rightarrow> real \<Rightarrow> pydict list \<Rightarrow> ccxt" where
  "ccxt_at usdt price positions =
     \<lparr>fetch_balance = Inr [(''total'', PDict [(''USDT'', PNum usdt)])],
      fetch_positions = Inr positions,
      fetch_ticker = (\<lambda>s. Inr [(''last'', PNum price)]),
      sapi_post_convert_getquote = (\<lambda>r. Inr [(''quoteId'', PStr ''abc123'')]),
      sapi_post_convert_acceptquote = (\<lambda>r. Inr [(''executed'', PInt 1)])\<rparr>"





text \<open>Turns of the monitor's loop at a given price; the session of the examples.\<close>

definition poll_at :: "real \<Rightarrow> bool \<Rightarrow> poll" where
  "poll_at price raises =
     \<lparr>exchange = ccxt_at 100 price [btc_position], callback_restarts = None,
      callback_raises = raises, stop_requested = False\<rparr>"

definition session_1 :: PositionMonitor where
  "session_1 = start_monitoring ''BTC/USDT'' 5 PositionMonitor_init"


text \<open>A turn in which the callback starts monitoring again and then raises.\<close>

definition poll_restarting :: "real \<Rightarrow> poll" where
  "poll_restarting price = (poll_at price True)\<lparr>callback_restarts := Some (''BTC/USDT'', 5)\<rparr>"


section \<open>Dictionaries and outcomes\<close>


lemma dict_set_nonempty [simp]: "dict_set k v d \<noteq> []"
  by (cases d) simp_all



lemma json_dumps_to_dict [simp]: "json_dumps (to_dict c) = Inr (to_dict c)"
  by (simp add: json_dumps_def to_dict_def split: option.splits)

lemma btc_position_nonempty [simp]: "btc_position \<noteq> []"
  by (simp add: btc_position_def)

lemma json_dumps_btc_position [simp]: "json_dumps btc_position = Inr btc_position"
  by (simp add: json_dumps_def btc_position_def)

section \<open>The state machine\<close>

text \<open>Saving the snapshot touches the store only; no attribute of the manager changes.\<close>

lemma save_state_fields [simp]:
  "current_state (save_state sm) = current_state sm"
  "trading_config (save_state sm) = trading_config sm"
  "active_position (save_state sm) = active_position sm"
  "last_closed_position (save_state sm) = last_closed_position sm"
  "trade_history (save_state sm) = trade_history sm"
  "state_log (save_state sm) = state_log sm"
  by (simp_all add: save_state_def split: sum.splits outcome.splits)

lemma set_state_fields [simp]:
  "current_state (set_state n sm) = n"
  "trading_config (set_state n sm) = trading_config sm"
  "active_position (set_state n sm) = active_position sm"
  "last_closed_position (set_state n sm) = last_closed_position sm"
  "trade_history (set_state n sm) = trade_history sm"
  "state_log (set_state n sm) = state_log sm @ [(current_state sm, n)]"
  by (simp_all add: set_state_def)

lemma auto_reset_fields [simp]:
  "current_state (auto_reset sm) = IDLE"
  "active_position (auto_reset sm) = active_position sm"
  "last_closed_position (auto_reset sm) = None"
  "trade_history (auto_reset sm) = trade_history sm"
  by (simp_all add: auto_reset_def Let_def)


lemma monitoring_manager_fields [simp]:
  "db monitoring_manager = empty_db"
  "current_state monitoring_manager = MONITORING"
  "trading_config monitoring_manager = Some config_1"
  "active_position monitoring_manager = Some btc_position"
  "last_closed_position monitoring_manager = None"
  "trade_history monitoring_manager = []"
  by (simp_all add: monitoring_manager_def)



text \<open>
  C5: from every state and configuration \<open>auto_reset\<close> returns, having logged the move to
  Resetting and then the move to Idle; the current state is Idle, the pending closed
  position is cleared, and a configuration, when there is one, has its entry price and
  opening time cleared. Nothing in it depends on what conversion or withdrawal did.
\<close>

theorem auto_reset_idle:
  "current_state (auto_reset sm) = IDLE \<and>
   state_log (auto_reset sm) = state_log sm @ [(current_state sm, RESETTING), (RESETTING, IDLE)] \<and>
   last_closed_position (auto_reset sm) = None \<and>
   trading_config (auto_reset sm) = map_option reset (trading_config sm) \<and>
   entry_price (reset c) = None \<and> position_opened_at (reset c) = None \<and>
   active_position (auto_reset sm) = active_position sm \<and>
   trade_history (auto_reset sm) = trade_history sm"
  by (simp add: auto_reset_def Let_def reset_def)

text \<open>C6: \<open>can_open_position\<close> is true exactly in the states Idle and Resetting.\<close>

theorem can_open_position_iff:
  "can_open_position sm \<longleftrightarrow> current_state sm = IDLE \<or> current_state sm = RESETTING"
  by (simp add: can_open_position_def)

section \<open>Closing a position\<close>






section \<open>The pipeline and the trade history\<close>

lemma execute_conversion_fields [simp]:
  "trade_history (execute_conversion env sm) = trade_history sm"
  "last_closed_position (execute_conversion env sm) =
     (if truthy_dict (conversion_result env)
      then attach ''conversion'' (the (conversion_result env)) (last_closed_position sm)
      else last_closed_position sm)"
  by (auto simp: execute_conversion_def conversion_completed_def split: option.splits)








section \<open>The exchange client\<close>



text \<open>
  C7: when the client returns a balance and the list of open positions, and the total
  USDT equity of the balance reads as a number, \<open>check_liquidation\<close> is true exactly when
  that equity is below 1 and no position is open; at an equity of exactly 1 it is false.
\<close>

theorem check_liquidation_iff:
  assumes "get_account_balance ex = Inr balance"
    and "get_open_positions float_of_str ex = Inr positions"
    and "total_equity float_of_str balance = Inr equity"
  shows "(check_liquidation float_of_str ex \<longleftrightarrow> equity < 1 \<and> length positions = 0) \<and>
         (equity = 1 \<longrightarrow> \<not> check_liquidation float_of_str ex)"
  using assms by (simp add: check_liquidation_def)

text \<open>An account with 0.5 USDT and no open position is reported as liquidated.\<close>

theorem check_liquidation_witness:
  "get_account_balance (ccxt_at 0.5 50500 []) = Inr [(''total'', PDict [(''USDT'', PNum 0.5)])] \<and>
   get_open_positions float_of_str_1 (ccxt_at 0.5 50500 []) = Inr [] \<and>
   total_equity float_of_str_1 [(''total'', PDict [(''USDT'', PNum 0.5)])] = Inr 0.5 \<and>
   check_liquidation float_of_str_1 (ccxt_at 0.5 50500 [])"
  using check_liquidation_iff [where ex = "ccxt_at 0.5 50500 []"
      and balance = "[(''total'', PDict [(''USDT'', PNum 0.5)])]"
      and float_of_str = float_of_str_1 and positions = "[]" and equity = "0.5"]
  by (simp add: get_account_balance_def get_open_positions_def total_equity_def ccxt_at_def
      get_default_def)

text \<open>
  C4 does not hold of the program: \<open>convert_crypto\<close> never raises, and on an exchange whose
  quote request raises it returns \<open>None\<close>.
\<close>

theorem convert_crypto_returns_none:
  "convert_crypto ex from_asset to_asset amount \<noteq> Inl e \<and>
   convert_crypto failing_ccxt ''BTC'' ''USDT'' 0.01 = Inr None"
  by (simp add: convert_crypto_def failing_ccxt_def split: sum.splits)

section \<open>The position monitor\<close>


lemma after_sleep_fields [simp]:
  "threshold (after_sleep p m) = threshold m"
  "\<not> monitoring m \<Longrightarrow> \<not> monitoring (after_sleep p m)"
  by (simp_all add: after_sleep_def stop_monitoring_def)




lemma pnl_btc_position:
  "calculate_position_pnl float_of_str_1 (ccxt_at usdt price [btc_position]) btc_position
     = (price - 50000) * 0.01"
  by (simp add: calculate_position_pnl_def pnl_try_def subscript_def btc_position_def
      ccxt_at_def float_of_str_1_def)

lemma get_position_btc:
  "get_position_by_symbol float_of_str_1 (ccxt_at usdt price [btc_position]) (PStr ''BTC/USDT'')
     = Some btc_position"
  by (simp add: get_position_by_symbol_def get_open_positions_def ccxt_at_def btc_position_def
      get_default_def subscript_def)

lemma session_1_eq:
  "session_1 =
     \<lparr>monitoring = True, threshold = 5, monitored_symbol = Some ''BTC/USDT'', has_callback = True\<rparr>"
  by (simp add: session_1_def start_monitoring_def PositionMonitor_init_def)



text \<open>
  A callback that starts monitoring again begins another session. If it then raises, the
  worker that served the first session goes on in the second and signals there: two calls
  in one run of the loop, one in each session.
\<close>

lemma monitor_restarted_session:
  "map sig_pnl (snd (monitor_loop float_of_str_1 [poll_restarting 50500, poll_at 50600 False]
          session_1 [])) = [5, 6]"
  by (simp add: session_1_eq monitor_turn_def poll_restarting_def poll_at_def get_position_btc
      pnl_btc_position after_sleep_def after_callback_def start_monitoring_def Let_def)

section \<open>The snapshot round trip\<close>

lemma length_digits [simp]: "length (digits w n) = w"
  by (induction w n rule: digits.induct) simp_all

lemma digit_val_digit_char [simp]: "digit_val (digit_char n) = Some (n mod 10)"
proof -
  have "n mod 10 < 10" by simp
  then have "(48 + n mod 10) mod 256 = 48 + n mod 10" by simp
  then show ?thesis by (simp add: digit_val_def digit_char_def Let_def)
qed

lemma nat_of_digits_append:
  "nat_of_digits acc (xs @ ys) =
     (case nat_of_digits acc xs of None \<Rightarrow> None | Some a \<Rightarrow> nat_of_digits a ys)"
  by (induction xs arbitrary: acc) (simp_all split: option.splits)

lemma nat_of_digits_digits:
  "nat_of_digits acc (digits w n) = Some (acc * 10 ^ w + n mod 10 ^ w)"
proof (induction w arbitrary: n acc)
  case 0
  then show ?case by simp
next
  case (Suc w)
  have "n mod (10 * 10 ^ w) = 10 * (n div 10 mod 10 ^ w) + n mod 10"
    by (simp add: mod_mult2_eq)
  then show ?case
    by (simp add: nat_of_digits_append Suc algebra_simps)
qed

lemma nat_of_digits_digits0: "n < 10 ^ w \<Longrightarrow> nat_of_digits 0 (digits w n) = Some n"
  by (simp add: nat_of_digits_digits)

lemma days_in_month_le: "days_in_month y m \<le> 31"
  by (simp add: days_in_month_def)

text \<open>What \<open>isoformat\<close> writes of a valid datetime, \<open>fromisoformat\<close> reads back.\<close>

lemma fromisoformat_isoformat:
  assumes "valid_datetime d"
  shows "fromisoformat (isoformat d) = Inr d"
proof -
  from assms have b: "dt_year d < 10000" "dt_month d < 100" "dt_day d < 100" "dt_hour d < 100"
      "dt_minute d < 100" "dt_second d < 100" "dt_microsecond d < 1000000"
    using days_in_month_le [of "dt_year d" "dt_month d"] by (simp_all add: valid_datetime_def)
  have r: "\<lparr>dt_year = dt_year d, dt_month = dt_month d, dt_day = dt_day d, dt_hour = dt_hour d,
      dt_minute = dt_minute d, dt_second = dt_second d, dt_microsecond = dt_microsecond d\<rparr> = d"
    by simp
  show ?thesis
  proof (cases "dt_microsecond d = 0")
    case True
    then have r0: "\<lparr>dt_year = dt_year d, dt_month = dt_month d, dt_day = dt_day d,
      dt_hour = dt_hour d, dt_minute = dt_minute d, dt_second = dt_second d,
      dt_microsecond = 0\<rparr> = d"
      by (metis r)
    from True assms b show ?thesis
      by (simp add: fromisoformat_def isoformat_def slice_def nat_of_digits_digits0 Let_def r0)
  next
    case False
    with assms b show ?thesis
      by (simp add: fromisoformat_def isoformat_def slice_def nat_of_digits_digits0 Let_def r)
  qed
qed

lemma isoformat_nonempty [simp]: "isoformat d \<noteq> []"
  by (simp add: isoformat_def)

lemma TradingConfig_init_to_dict:
  "TradingConfig_init
     [(''symbol'', PStr (symbol c)), (''side'', PStr (side c)), (''quantity'', PNum (quantity c)),
      (''leverage'', PInt (leverage c)), (''margin_mode'', PStr (margin_mode c)),
      (''profit_threshold'', PNum (profit_threshold c)),
      (''entry_price'', (case entry_price c of None \<Rightarrow> PNone | Some p \<Rightarrow> PNum p)),
      (''position_opened_at'', (case position_opened_at c of None \<Rightarrow> PNone | Some t \<Rightarrow> PTime t))]
   = Inr c"
  by (simp add: TradingConfig_init_def get_str_def get_float_def get_int_def get_opt_float_def
      get_opt_time_def split: option.splits)

text \<open>\<open>from_dict\<close> inverts \<open>to_dict\<close> on every configuration whose opening time is a datetime.\<close>

lemma from_dict_to_dict:
  assumes "\<forall>t. position_opened_at c = Some t \<longrightarrow> valid_datetime t"
  shows "from_dict (to_dict c) = Inr c"
proof (cases "position_opened_at c")
  case None
  with TradingConfig_init_to_dict [of c] show ?thesis
    by (simp add: from_dict_def to_dict_def)
next
  case (Some t)
  with assms have "fromisoformat (isoformat t) = Inr t"
    by (simp add: fromisoformat_isoformat)
  with Some TradingConfig_init_to_dict [of c] show ?thesis
    by (simp add: from_dict_def to_dict_def)
qed

lemma BotState_of_value_state_value [simp]: "BotState_of_value (state_value s) = Inr s"
  by (cases s) (simp_all add: BotState_of_value_def)

lemma latest_bot_state_snoc [simp]: "latest_bot_state (cs @ [SaveBotState r]) = Some r"
  by (induction cs) simp_all

lemma no_faults_2:
  assumes "True \<notin> set (take 2 (faults d))"
  shows "\<not> next_statement_fails d" "\<not> next_statement_fails (d\<lparr>faults := tl (faults d)\<rparr>)"
  using assms
  by (cases "faults d"; cases "tl (faults d)"; auto simp: next_statement_fails_def)+

text \<open>
  Through the store: a manager whose configuration (if any) holds a valid opening time and
  whose active position JSON can write saves its snapshot; if the store fails neither
  that statement nor the next, a manager constructed on the store afterwards has loaded
  the same state value, the same configuration and the active position that was written.
\<close>

lemma save_then_load:
  assumes "\<forall>c t. trading_config sm = Some c \<and> position_opened_at c = Some t \<longrightarrow> valid_datetime t"
    and "dumps_if_truthy (active_position sm) = Inr pos"
    and "True \<notin> set (take 2 (faults (db sm)))"
  shows "current_state (StateManager_init (db (save_state sm))) = current_state sm \<and>
         trading_config (StateManager_init (db (save_state sm))) = trading_config sm \<and>
         active_position (StateManager_init (db (save_state sm))) = pos"
proof -
  let ?row = "\<lparr>row_current_state = state_value (current_state sm),
               row_trading_config = map_option to_dict (trading_config sm),
               row_active_position = pos\<rparr>"
  let ?d = "(db sm)\<lparr>faults := tl (faults (db sm)),
                    statements := statements (db sm) @ [SaveBotState ?row]\<rparr>"
  note nf = no_faults_2 [OF assms(3)]
  have d: "db (save_state sm) = ?d"
    using assms(2) nf(1)
    by (simp add: save_state_def save_bot_state_def db_execute_def split: option.splits)
  have nf2: "\<not> next_statement_fails ?d"
    using nf(2) by (simp add: next_statement_fails_def)
  have g: "get_bot_state ?d = (Some ?row, ?d\<lparr>faults := tl (faults ?d)\<rparr>)"
    using nf2 by (simp add: get_bot_state_def)
  show ?thesis
  proof (cases "trading_config sm")
    case None
    with g show ?thesis
      by (simp add: d StateManager_init_def load_state_def Let_def json_loads_def
          split: option.splits)
  next
    case (Some c)
    with assms(1) have "from_dict (to_dict c) = Inr c"
      by (simp add: from_dict_to_dict)
    with Some g show ?thesis
      by (simp add: d StateManager_init_def load_state_def Let_def json_loads_def
          split: option.splits)
  qed
qed

lemma valid_datetime_t0 [simp]: "valid_datetime t0"
  by (simp add: valid_datetime_def t0_def days_in_month_def)

text \<open>
  C9: for every configuration (its opening time, when set, a datetime) the JSON document
  of \<open>to_dict\<close> is read back by \<open>from_dict\<close> as a configuration equal to it in all eight
  fields; for every state, the value written is parsed back to that state; and
  \<open>_save_state\<close> followed by the construction of a manager on the same store, with the
  snapshot persisted, gives back the state value and the configuration.
\<close>

theorem snapshot_roundtrip:
  "((\<forall>t. position_opened_at c = Some t \<longrightarrow> valid_datetime t) \<longrightarrow>
      (\<exists>doc. json_dumps (to_dict c) = Inr doc \<and> from_dict (json_loads doc) = Inr c)) \<and>
   BotState_of_value (state_value s) = Inr s \<and>
   ((\<forall>c t. trading_config sm = Some c \<and> position_opened_at c = Some t \<longrightarrow> valid_datetime t) \<and>
    dumps_if_truthy (active_position sm) = Inr pos \<and>
    True \<notin> set (take 2 (faults (db sm))) \<longrightarrow>
      current_state (StateManager_init (db (save_state sm))) = current_state sm \<and>
      trading_config (StateManager_init (db (save_state sm))) = trading_config sm \<and>
      active_position (StateManager_init (db (save_state sm))) = pos)"
proof (intro conjI impI)
  assume "\<forall>t. position_opened_at c = Some t \<longrightarrow> valid_datetime t"
  then show "\<exists>doc. json_dumps (to_dict c) = Inr doc \<and> from_dict (json_loads doc) = Inr c"
    by (simp add: from_dict_to_dict json_loads_def)
next
  show "BotState_of_value (state_value s) = Inr s" by simp
next
  assume a: "(\<forall>c t. trading_config sm = Some c \<and> position_opened_at c = Some t \<longrightarrow> valid_datetime t) \<and>
    dumps_if_truthy (active_position sm) = Inr pos \<and> True \<notin> set (take 2 (faults (db sm)))"
  from a show "current_state (StateManager_init (db (save_state sm))) = current_state sm"
    using save_then_load [of sm pos] by blast
  from a show "trading_config (StateManager_init (db (save_state sm))) = trading_config sm"
    using save_then_load [of sm pos] by blast
  from a show "active_position (StateManager_init (db (save_state sm))) = pos"
    using save_then_load [of sm pos] by blast
qed

text \<open>The monitoring manager of the examples, its configuration and its state.\<close>

theorem snapshot_roundtrip_witness:
  "position_opened_at config_1 = Some t0 \<and> valid_datetime t0 \<and>
   from_dict (json_loads (to_dict config_1)) = Inr config_1 \<and>
   BotState_of_value (state_value MONITORING) = Inr MONITORING \<and>
   dumps_if_truthy (active_position monitoring_manager) = Inr (Some btc_position) \<and>
   faults (db monitoring_manager) = [] \<and>
   current_state (StateManager_init (db (save_state monitoring_manager))) = MONITORING \<and>
   trading_config (StateManager_init (db (save_state monitoring_manager))) = Some config_1 \<and>
   active_position (StateManager_init (db (save_state monitoring_manager))) = Some btc_position"
  using snapshot_roundtrip [where sm = monitoring_manager and pos = "Some btc_position"
      and c = config_1 and s = MONITORING]
  by (simp add: dumps_if_truthy_def empty_db_def config_1_def json_loads_def)

end
